theory Spec2Isabelle
  imports Main "HOL-Library.Word" "HOL-Library.Monad_Syntax"
begin

section \<open>The reservation database of main.cpp\<close>

text \<open>
  main.cpp keeps two SQLite tables, Flights and Users, and changes them from a console menu.
  Each menu operation is embedded as a function from the database before the call and the
  values typed at its prompts to the messages it prints and the database afterwards.

  What the embedding covers and what it leaves out:
  \<^item> The tables are lists of rows in storage order. The constraints that the schema of
    \<^verbatim>\<open>initializeDatabase\<close> declares (the two primary keys and
    \<^verbatim>\<open>UNIQUE(flightNumber, seatNumber)\<close>) are checked by the statements that
    SQLite checks them in, INSERT and UPDATE. The program never switches foreign-key
    enforcement on, so SQLite does not check the FOREIGN KEY clause and neither does the model.
  \<^item> \<^verbatim>\<open>sqlite3_open\<close> is taken to succeed.
  \<^item> The prompts and the parsing of the console input are not modelled: an operation receives
    the lines read by \<^verbatim>\<open>getline\<close> as strings and the numbers read by
    \<^verbatim>\<open>cin >>\<close> as 32-bit C ints.
  \<^item> INSERT, UPDATE and DELETE statements, and two of the SELECTs, are built by splicing the
    typed text between single quotes, unescaped. The model follows SQLite on such a text in
    two cases: when no spliced field holds a quote or a NUL character, so that the text is
    the statement meant; and when the text cannot be a statement at all, because a quote is
    left open (see \<open>spliced_text\<close>), so that SQLite reports an error and does nothing. This
    is the StatementFailure of a malformed statement. For any other text (one in which the
    quotes may pair up into a different statement) the operation has the value
    \<open>None\<close>: the model does not follow what SQLite makes of it.
  \<^item> A stored INTEGER is a 64-bit value. An update that would carry a ticket counter past
    either end of that range also has the value \<open>None\<close>.
\<close>

subsection \<open>Text and numbers on their way into SQLite\<close>

text \<open>\<^verbatim>\<open>s.c_str()\<close> bound with length -1: the bytes before the first NUL.\<close>

definition c_str :: "string \<Rightarrow> string" where
  "c_str s = takeWhile (\<lambda>c. c \<noteq> CHR 0x00) s"

text \<open>
  Text that can stand between single quotes in a statement and be read back unchanged:
  no quote (0x27) and no NUL.
\<close>

definition sql_text :: "string \<Rightarrow> bool" where
  "sql_text s = (CHR 0x27 \<notin> set s \<and> CHR 0x00 \<notin> set s)"

text \<open>
  Letters, digits and the space: characters that cannot open a comment, a quoted name, a
  parameter or a second statement.
\<close>

definition simple_char :: "char \<Rightarrow> bool" where
  "simple_char c =
     (c \<in> set ''ABCDEFGHIJKLMNOPQRSTUVWXYZabcdefghijklmnopqrstuvwxyz0123456789 '')"

text \<open>
  What SQLite makes of a statement text of main.cpp, given the text fields spliced into it
  in the order of the text. Each field stands between two quotes of the fixed part, the
  fixed part has no other quote, and its only semicolon is the last character. The text is
  handed over with \<^verbatim>\<open>c_str()\<close>, so it ends at the first NUL.
  \<^item> \<open>Some True\<close>: no field holds a quote or a NUL; the text is the statement meant.
  \<^item> \<open>Some False\<close>: SQLite rejects the text before running anything, in two cases.
    A NUL with no quote among the spliced characters before it: the text ends inside the
    string literal of that field. Or no NUL, an odd number of quotes in the fields, and
    otherwise only letters, digits and spaces in them: a string literal takes an even
    number of quotes, so the last one opened never closes, and no semicolon comes before it.
  \<^item> \<open>None\<close>: any other text.
\<close>

definition spliced_text :: "string list \<Rightarrow> bool option" where
  "spliced_text fs =
     (let cs = concat fs in
      if CHR 0x00 \<notin> set cs \<and> CHR 0x27 \<notin> set cs then Some True
      else if CHR 0x00 \<in> set cs \<and> CHR 0x27 \<notin> set (c_str cs) then Some False
      else if CHR 0x00 \<notin> set cs \<and> odd (length (filter (\<lambda>c. c = CHR 0x27) cs)) \<and>
              list_all (\<lambda>c. c = CHR 0x27 \<or> simple_char c) cs then Some False
      else None)"

text \<open>\<^verbatim>\<open>sqlite3_column_int\<close>: the low 32 bits of the stored 64-bit integer.\<close>

definition sqlite3_column_int :: "int \<Rightarrow> 32 word" where
  "sqlite3_column_int v = word_of_int v"

subsection \<open>Rows and tables\<close>

text \<open>
  The columns in the order of the CREATE TABLE statements, which is the order the
  positional \<^verbatim>\<open>INSERT ... VALUES\<close> of addFlight, addUser and makeReservation rely on.
\<close>

record Flight =
  flightNumber :: string
  airlineName :: string
  startingPoint :: string
  destination :: string
  totalTickets :: int
  availableTickets :: int

record User =
  userID :: string
  name :: string
  flightNumber :: string
  seatNumber :: int

record database =
  Flights :: "Flight list"
  Users :: "User list"

text \<open>The database file after \<^verbatim>\<open>initializeDatabase\<close> has created it: both tables empty.\<close>

definition initializeDatabase :: database where
  "initializeDatabase = \<lparr>Flights = [], Users = []\<rparr>"

text \<open>The (flightNumber, seatNumber) pair of a Users row, the key of the UNIQUE constraint.\<close>

definition seat_key :: "User \<Rightarrow> string \<times> int" where
  "seat_key u = (User.flightNumber u, seatNumber u)"

text \<open>What the schema guarantees of every database file: the three uniqueness constraints.\<close>

definition schema_ok :: "database \<Rightarrow> bool" where
  "schema_ok db =
     (distinct (map Flight.flightNumber (Flights db)) \<and>
      distinct (map userID (Users db)) \<and>
      distinct (map seat_key (Users db)))"

text \<open>
  What the program's own statements guarantee of the text they store: a key that went into
  the file through a statement holds no quote and no NUL.
\<close>

definition text_ok :: "database \<Rightarrow> bool" where
  "text_ok db =
     (list_all (\<lambda>r. sql_text (Flight.flightNumber r)) (Flights db) \<and>
      list_all (\<lambda>r. sql_text (userID r) \<and> sql_text (User.flightNumber r)) (Users db))"

definition db_ok :: "database \<Rightarrow> bool" where
  "db_ok db = (schema_ok db \<and> text_ok db)"

subsection \<open>The statements the program sends\<close>

text \<open>
  One constructor for each statement text that main.cpp assembles, with the spliced values
  in the order they appear in the text. A C int is spliced with \<^verbatim>\<open>to_string\<close> and read by
  SQLite as the same integer.
\<close>

datatype sql =
    INSERT_Flights string string string string int int
      \<comment> \<open>INSERT INTO Flights VALUES ('f', 'a', 's', 'd', t, v);\<close>
  | UPDATE_Flights string string string int int string
      \<comment> \<open>UPDATE Flights SET airlineName = 'a', startingPoint = 's', destination = 'd',
          totalTickets = t, availableTickets = v WHERE flightNumber = 'f';\<close>
  | DELETE_Users_of_flight string
      \<comment> \<open>DELETE FROM Users WHERE flightNumber = 'f';\<close>
  | DELETE_Flights string
      \<comment> \<open>DELETE FROM Flights WHERE flightNumber = 'f';\<close>
  | INSERT_Users string string string int
      \<comment> \<open>INSERT INTO Users VALUES ('u', 'n', 'f', s);\<close>
  | UPDATE_availableTickets_minus_1 string
      \<comment> \<open>UPDATE Flights SET availableTickets = availableTickets - 1 WHERE flightNumber = 'f';\<close>
  | UPDATE_availableTickets_plus_1 string
      \<comment> \<open>UPDATE Flights SET availableTickets = availableTickets + 1 WHERE flightNumber = 'f';\<close>
  | UPDATE_Users string string int string
      \<comment> \<open>UPDATE Users SET name = 'n', flightNumber = 'f', seatNumber = s WHERE userID = 'u';\<close>
  | DELETE_Users string
      \<comment> \<open>DELETE FROM Users WHERE userID = 'u';\<close>

text \<open>The text fields spliced into a statement.\<close>

fun spliced :: "sql \<Rightarrow> string list" where
  "spliced (INSERT_Flights f a s d t v) = [f, a, s, d]"
| "spliced (UPDATE_Flights a s d t v f) = [a, s, d, f]"
| "spliced (DELETE_Users_of_flight f) = [f]"
| "spliced (DELETE_Flights f) = [f]"
| "spliced (INSERT_Users u n f s) = [u, n, f]"
| "spliced (UPDATE_availableTickets_minus_1 f) = [f]"
| "spliced (UPDATE_availableTickets_plus_1 f) = [f]"
| "spliced (UPDATE_Users n f s u) = [n, f, u]"
| "spliced (DELETE_Users u) = [u]"

text \<open>
  What SQLite does with each statement when its text is the statement meant: the flag is
  True when the statement ran and False when a constraint rejected it, in which case
  nothing changes. An UPDATE or DELETE that matches no row runs and changes nothing.
\<close>

fun sqlite3_exec :: "sql \<Rightarrow> database \<Rightarrow> (bool \<times> database) option" where
  "sqlite3_exec (INSERT_Flights f a s d t v) db =
     (if f \<in> set (map Flight.flightNumber (Flights db)) then Some (False, db)
      else Some (True, db\<lparr>Flights := Flights db @
        [\<lparr>Flight.flightNumber = f, airlineName = a, startingPoint = s, destination = d,
          totalTickets = t, availableTickets = v\<rparr>]\<rparr>))"
| "sqlite3_exec (UPDATE_Flights a s d t v f) db =
     Some (True, db\<lparr>Flights := map (\<lambda>r. if Flight.flightNumber r = f
        then r\<lparr>airlineName := a, startingPoint := s, destination := d,
               totalTickets := t, availableTickets := v\<rparr>
        else r) (Flights db)\<rparr>)"
| "sqlite3_exec (DELETE_Users_of_flight f) db =
     Some (True, db\<lparr>Users := filter (\<lambda>r. User.flightNumber r \<noteq> f) (Users db)\<rparr>)"
| "sqlite3_exec (DELETE_Flights f) db =
     Some (True, db\<lparr>Flights := filter (\<lambda>r. Flight.flightNumber r \<noteq> f) (Flights db)\<rparr>)"
| "sqlite3_exec (INSERT_Users u n f s) db =
     (if u \<in> set (map userID (Users db)) \<or> (f, s) \<in> set (map seat_key (Users db))
      then Some (False, db)
      else Some (True, db\<lparr>Users := Users db @
        [\<lparr>userID = u, name = n, User.flightNumber = f, seatNumber = s\<rparr>]\<rparr>))"
| "sqlite3_exec (UPDATE_availableTickets_minus_1 f) db =
     (if list_ex (\<lambda>r. Flight.flightNumber r = f \<and> availableTickets r \<le> - (2 ^ 63)) (Flights db)
      then None
      else Some (True, db\<lparr>Flights := map (\<lambda>r. if Flight.flightNumber r = f
        then r\<lparr>availableTickets := availableTickets r - 1\<rparr> else r) (Flights db)\<rparr>))"
| "sqlite3_exec (UPDATE_availableTickets_plus_1 f) db =
     (if list_ex (\<lambda>r. Flight.flightNumber r = f \<and> 2 ^ 63 - 1 \<le> availableTickets r) (Flights db)
      then None
      else Some (True, db\<lparr>Flights := map (\<lambda>r. if Flight.flightNumber r = f
        then r\<lparr>availableTickets := availableTickets r + 1\<rparr> else r) (Flights db)\<rparr>))"
| "sqlite3_exec (UPDATE_Users n f s u) db =
     (if u \<in> set (map userID (Users db)) \<and>
         list_ex (\<lambda>r. userID r \<noteq> u \<and> seat_key r = (f, s)) (Users db)
      then Some (False, db)
      else Some (True, db\<lparr>Users := map (\<lambda>r. if userID r = u
        then r\<lparr>name := n, User.flightNumber := f, seatNumber := s\<rparr> else r) (Users db)\<rparr>))"
| "sqlite3_exec (DELETE_Users u) db =
     Some (True, db\<lparr>Users := filter (\<lambda>r. userID r \<noteq> u) (Users db)\<rparr>)"

text \<open>
  \<^verbatim>\<open>executeSQL\<close>: opens the file, hands the statement text to SQLite, reports whether
  it ran. A text that SQLite rejects changes nothing.
\<close>

definition executeSQL :: "sql \<Rightarrow> database \<Rightarrow> (bool \<times> database) option" where
  "executeSQL q db =
     do {
       meant \<leftarrow> spliced_text (spliced q);
       if meant then sqlite3_exec q db else Some (False, db)
     }"

subsection \<open>The validators\<close>

text \<open>These three bind their arguments to a prepared statement, so any text is compared as it is.\<close>

definition flightExists :: "database \<Rightarrow> string \<Rightarrow> bool" where
  "flightExists db f = (c_str f \<in> set (map Flight.flightNumber (Flights db)))"

definition userExists :: "database \<Rightarrow> string \<Rightarrow> bool" where
  "userExists db u = (c_str u \<in> set (map userID (Users db)))"

definition isSeatAvailable :: "database \<Rightarrow> string \<Rightarrow> 32 word \<Rightarrow> bool" where
  "isSeatAvailable db f s = ((c_str f, sint s) \<notin> set (map seat_key (Users db)))"

text \<open>
  The check inside modifyUser:
  \<^verbatim>\<open>SELECT 1 FROM Users WHERE flightNumber = ? AND seatNumber = ? AND userID != ?\<close>
  finds no row.
\<close>

definition seatAvailable_for :: "database \<Rightarrow> string \<Rightarrow> 32 word \<Rightarrow> string \<Rightarrow> bool" where
  "seatAvailable_for db f s u =
     (\<not> list_ex (\<lambda>r. seat_key r = (c_str f, sint s) \<and> userID r \<noteq> c_str u) (Users db))"

text \<open>
  The two SELECTs whose text is spliced. In deleteUser and cancelReservation
  \<^verbatim>\<open>SELECT flightNumber FROM Users WHERE userID = 'u'\<close> fills a string that starts
  empty; in makeReservation
  \<^verbatim>\<open>SELECT availableTickets FROM Flights WHERE flightNumber = 'f'\<close> fills an int that
  starts at -1. Each reads the first matching row, if there is one; when
  \<^verbatim>\<open>sqlite3_prepare_v2\<close> rejects the text, the variable keeps its starting value.
  The string is assigned from the \<^verbatim>\<open>const char*\<close> of \<^verbatim>\<open>sqlite3_column_text\<close>,
  so it holds the bytes before the first NUL.
\<close>

definition select_flightNumber :: "database \<Rightarrow> string \<Rightarrow> string option" where
  "select_flightNumber db u =
     do {
       meant \<leftarrow> spliced_text [u];
       Some (if meant
             then (case find (\<lambda>r. userID r = u) (Users db) of
                     None \<Rightarrow> [] | Some r \<Rightarrow> c_str (User.flightNumber r))
             else [])
     }"

definition select_availableTickets :: "database \<Rightarrow> string \<Rightarrow> 32 word option" where
  "select_availableTickets db f =
     do {
       meant \<leftarrow> spliced_text [f];
       Some (if meant
             then (case find (\<lambda>r. Flight.flightNumber r = f) (Flights db) of
                     None \<Rightarrow> - 1 | Some r \<Rightarrow> sqlite3_column_int (availableTickets r))
             else - 1)
     }"

subsection \<open>The menu operations\<close>

text \<open>The lines an operation can print, and the line \<^verbatim>\<open>executeSQL\<close> prints on failure.\<close>

datatype message =
    Flight_already_exists   \<comment> \<open>Flight with this number already exists!\<close>
  | Flight_added            \<comment> \<open>Flight added successfully.\<close>
  | Flight_not_found        \<comment> \<open>Flight not found! (modifyFlight, deleteFlight)\<close>
  | Flight_modified         \<comment> \<open>Flight modified successfully.\<close>
  | Flight_deleted          \<comment> \<open>Flight and associated users deleted successfully.\<close>
  | User_already_exists     \<comment> \<open>User with this ID already exists!\<close>
  | Flight_doesnt_exist     \<comment> \<open>Flight doesn't exist!\<close>
  | Seat_taken "32 word"    \<comment> \<open>Seat N is already taken on this flight!\<close>
  | User_added              \<comment> \<open>User added successfully.\<close>
  | User_not_found          \<comment> \<open>User not found!\<close>
  | User_modified           \<comment> \<open>User modified successfully.\<close>
  | User_deleted            \<comment> \<open>User deleted successfully.\<close>
  | Flight_not_found_res    \<comment> \<open>Flight not found. (makeReservation)\<close>
  | No_available_tickets    \<comment> \<open>No available tickets for this flight.\<close>
  | Reservation_successful  \<comment> \<open>Reservation successful! Seat booked.\<close>
  | Reservation_canceled    \<comment> \<open>Reservation canceled successfully.\<close>
  | SQL_error               \<comment> \<open>SQL error: ... (on cerr)\<close>

type_synonym outcome = "(message list \<times> database) option"

text \<open>What \<^verbatim>\<open>executeSQL\<close> itself prints.\<close>

definition sql_said :: "bool \<Rightarrow> message list" where
  "sql_said ok = (if ok then [] else [SQL_error])"

definition addFlight ::
  "database \<Rightarrow> string \<Rightarrow> string \<Rightarrow> string \<Rightarrow> string \<Rightarrow> 32 word \<Rightarrow> outcome" where
  "addFlight db f a s d t =
     (if flightExists db f then Some ([Flight_already_exists], db)
      else do {
        (ok, db1) \<leftarrow> executeSQL (INSERT_Flights f a s d (sint t) (sint t)) db;
        Some (sql_said ok @ (if ok then [Flight_added] else []), db1)
      })"

definition modifyFlight ::
  "database \<Rightarrow> string \<Rightarrow> string \<Rightarrow> string \<Rightarrow> string \<Rightarrow> 32 word \<Rightarrow> 32 word \<Rightarrow> outcome" where
  "modifyFlight db f a s d t v =
     (if \<not> flightExists db f then Some ([Flight_not_found], db)
      else do {
        (ok, db1) \<leftarrow> executeSQL (UPDATE_Flights a s d (sint t) (sint v) f) db;
        Some (sql_said ok @ (if ok then [Flight_modified] else []), db1)
      })"

definition deleteFlight :: "database \<Rightarrow> string \<Rightarrow> outcome" where
  "deleteFlight db f =
     (if \<not> flightExists db f then Some ([Flight_not_found], db)
      else do {
        (ok1, db1) \<leftarrow> executeSQL (DELETE_Users_of_flight f) db;
        if ok1 then do {
          (ok2, db2) \<leftarrow> executeSQL (DELETE_Flights f) db1;
          Some (sql_said ok2 @ (if ok2 then [Flight_deleted] else []), db2)
        } else Some (sql_said ok1, db1)
      })"

definition addUser ::
  "database \<Rightarrow> string \<Rightarrow> string \<Rightarrow> string \<Rightarrow> 32 word \<Rightarrow> outcome" where
  "addUser db u n f s =
     (if userExists db u then Some ([User_already_exists], db)
      else if \<not> flightExists db f then Some ([Flight_doesnt_exist], db)
      else if \<not> isSeatAvailable db f s then Some ([Seat_taken s], db)
      else do {
        (ok, db1) \<leftarrow> executeSQL (INSERT_Users u n f (sint s)) db;
        if ok then do {
          (ok2, db2) \<leftarrow> executeSQL (UPDATE_availableTickets_minus_1 f) db1;
          Some (sql_said ok2 @ [User_added], db2)
        } else Some (sql_said ok, db1)
      })"

definition modifyUser ::
  "database \<Rightarrow> string \<Rightarrow> string \<Rightarrow> string \<Rightarrow> 32 word \<Rightarrow> outcome" where
  "modifyUser db u n f s =
     (if \<not> userExists db u then Some ([User_not_found], db)
      else if \<not> flightExists db f then Some ([Flight_doesnt_exist], db)
      else if \<not> seatAvailable_for db f s u then Some ([Seat_taken s], db)
      else do {
        (ok, db1) \<leftarrow> executeSQL (UPDATE_Users n f (sint s) u) db;
        Some (sql_said ok @ (if ok then [User_modified] else []), db1)
      })"

definition deleteUser :: "database \<Rightarrow> string \<Rightarrow> outcome" where
  "deleteUser db u =
     (if \<not> userExists db u then Some ([User_not_found], db)
      else do {
        f \<leftarrow> select_flightNumber db u;
        (ok, db1) \<leftarrow> executeSQL (DELETE_Users u) db;
        if ok then
          if f \<noteq> [] then do {
            (ok2, db2) \<leftarrow> executeSQL (UPDATE_availableTickets_plus_1 f) db1;
            Some (sql_said ok2 @ [User_deleted], db2)
          } else Some ([User_deleted], db1)
        else Some (sql_said ok, db1)
      })"

definition makeReservation ::
  "database \<Rightarrow> string \<Rightarrow> string \<Rightarrow> string \<Rightarrow> 32 word \<Rightarrow> outcome" where
  "makeReservation db u f n s =
     (if userExists db u then Some ([User_already_exists], db)
      else do {
        v \<leftarrow> select_availableTickets db f;
        if v = - 1 then Some ([Flight_not_found_res], db)
        else if sint v \<le> 0 then Some ([No_available_tickets], db)
        else if \<not> isSeatAvailable db f s then Some ([Seat_taken s], db)
        else do {
          (ok, db1) \<leftarrow> executeSQL (INSERT_Users u n f (sint s)) db;
          if ok then do {
            (ok2, db2) \<leftarrow> executeSQL (UPDATE_availableTickets_minus_1 f) db1;
            Some (sql_said ok2 @ [Reservation_successful], db2)
          } else Some (sql_said ok, db1)
        }
      })"

definition cancelReservation :: "database \<Rightarrow> string \<Rightarrow> outcome" where
  "cancelReservation db u =
     (if \<not> userExists db u then Some ([User_not_found], db)
      else do {
        f \<leftarrow> select_flightNumber db u;
        (ok, db1) \<leftarrow> executeSQL (DELETE_Users u) db;
        if ok then
          if f \<noteq> [] then do {
            (ok2, db2) \<leftarrow> executeSQL (UPDATE_availableTickets_plus_1 f) db1;
            Some (sql_said ok2 @ [Reservation_canceled], db2)
          } else Some ([Reservation_canceled], db1)
        else Some (sql_said ok, db1)
      })"

subsection \<open>The menu and the states it can reach\<close>

text \<open>
  The choices of \<^verbatim>\<open>main\<close> that change the database, each with the values typed at its
  prompts in the order the operation reads them.
\<close>

datatype command =
    AddFlight string string string string "32 word"
  | ModifyFlight string string string string "32 word" "32 word"
  | DeleteFlight string
  | AddUser string string string "32 word"
  | ModifyUser string string string "32 word"
  | DeleteUser string
  | MakeReservation string string string "32 word"
  | CancelReservation string

fun run :: "database \<Rightarrow> command \<Rightarrow> outcome" where
  "run db (AddFlight f a s d t) = addFlight db f a s d t"
| "run db (ModifyFlight f a s d t v) = modifyFlight db f a s d t v"
| "run db (DeleteFlight f) = deleteFlight db f"
| "run db (AddUser u n f s) = addUser db u n f s"
| "run db (ModifyUser u n f s) = modifyUser db u n f s"
| "run db (DeleteUser u) = deleteUser db u"
| "run db (MakeReservation u f n s) = makeReservation db u f n s"
| "run db (CancelReservation u) = cancelReservation db u"

text \<open>A session: the commands of the menu loop in turn, from a given database.\<close>

fun session :: "database \<Rightarrow> command list \<Rightarrow> database option" where
  "session db [] = Some db"
| "session db (c # cs) = (case run db c of None \<Rightarrow> None | Some (out, db1) \<Rightarrow> session db1 cs)"

text \<open>The databases the program can produce, starting from the file it creates.\<close>

inductive reachable :: "database \<Rightarrow> bool" where
  initial: "reachable initializeDatabase"
| step: "reachable db \<Longrightarrow> run db c = Some (out, db1) \<Longrightarrow> reachable db1"

text \<open>The messages of a validation failure: an entity absent, a key present, a seat or a flight full.\<close>

fun validation_failure :: "message \<Rightarrow> bool" where
  "validation_failure Flight_already_exists = True"
| "validation_failure Flight_not_found = True"
| "validation_failure User_already_exists = True"
| "validation_failure Flight_doesnt_exist = True"
| "validation_failure (Seat_taken s) = True"
| "validation_failure User_not_found = True"
| "validation_failure Flight_not_found_res = True"
| "validation_failure No_available_tickets = True"
| "validation_failure m = False"

subsection \<open>Example databases\<close>

text \<open>
  The databases of the worked scenarios: flight AA100 of airline Delta with two tickets, a
  second flight BB200, the passengers U1 and U2, and a flight whose number is the empty line.
\<close>

definition flight_AA100 :: "int \<Rightarrow> Flight" where
  "flight_AA100 v = \<lparr>Flight.flightNumber = ''AA100'', airlineName = ''Delta'',
     startingPoint = ''Oslo'', destination = ''Rome'', totalTickets = 2, availableTickets = v\<rparr>"

definition flight_BB200 :: Flight where
  "flight_BB200 = \<lparr>Flight.flightNumber = ''BB200'', airlineName = ''KLM'',
     startingPoint = ''Bonn'', destination = ''Kyiv'', totalTickets = 5, availableTickets = 4\<rparr>"

definition flight_unnamed :: "int \<Rightarrow> Flight" where
  "flight_unnamed v = \<lparr>Flight.flightNumber = [], airlineName = ''Delta'',
     startingPoint = ''Oslo'', destination = ''Rome'', totalTickets = 2, availableTickets = v\<rparr>"

definition user_U1 :: User where
  "user_U1 = \<lparr>userID = ''U1'', name = ''Ann'', User.flightNumber = ''AA100'', seatNumber = 1\<rparr>"

definition user_U2 :: User where
  "user_U2 = \<lparr>userID = ''U2'', name = ''Bob'', User.flightNumber = ''BB200'', seatNumber = 1\<rparr>"

definition db_empty_flight :: database where
  "db_empty_flight = \<lparr>Flights = [flight_AA100 2], Users = []\<rparr>"

definition db_one_booking :: database where
  "db_one_booking = \<lparr>Flights = [flight_AA100 1], Users = [user_U1]\<rparr>"

definition db_sold_out :: database where
  "db_sold_out = \<lparr>Flights = [flight_AA100 0], Users = [user_U1]\<rparr>"

definition db_two_flights :: database where
  "db_two_flights = \<lparr>Flights = [flight_AA100 1, flight_BB200], Users = [user_U1, user_U2]\<rparr>"

definition db_unnamed_booking :: database where
  "db_unnamed_booking = \<lparr>Flights = [flight_unnamed 1],
     Users = [\<lparr>userID = ''U1'', name = ''Ann'', User.flightNumber = [], seatNumber = 1\<rparr>]\<rparr>"

text \<open>A flight whose number holds an apostrophe, with one passenger.\<close>

definition flight_OHare :: Flight where
  "flight_OHare = \<lparr>Flight.flightNumber = ''O'Hare'', airlineName = ''United'',
     startingPoint = ''Oslo'', destination = ''Rome'', totalTickets = 3, availableTickets = 2\<rparr>"

definition db_OHare :: database where
  "db_OHare = \<lparr>Flights = [flight_OHare],
     Users = [\<lparr>userID = ''U1'', name = ''Ann'', User.flightNumber = ''O'Hare'', seatNumber = 1\<rparr>]\<rparr>"

definition db_OHare_sold_out :: database where
  "db_OHare_sold_out = \<lparr>Flights = [flight_OHare\<lparr>availableTickets := 0\<rparr>],
     Users = [\<lparr>userID = ''U1'', name = ''Ann'', User.flightNumber = ''O'Hare'', seatNumber = 1\<rparr>]\<rparr>"

section \<open>Properties\<close>

subsection \<open>Text, keys and evaluation\<close>

lemma c_str_sql_text: "sql_text s \<Longrightarrow> c_str s = s"
  by (auto simp: sql_text_def c_str_def)

lemma sql_said_True [simp]: "sql_said True = []"
  by (simp add: sql_said_def)

lemma sql_said_False [simp]: "sql_said False = [SQL_error]"
  by (simp add: sql_said_def)

lemmas operation_defs = addFlight_def modifyFlight_def deleteFlight_def addUser_def
  modifyUser_def deleteUser_def makeReservation_def cancelReservation_def
  flightExists_def userExists_def isSeatAvailable_def seatAvailable_for_def
  select_flightNumber_def select_availableTickets_def executeSQL_def spliced_text_def
  simple_char_def c_str_def sql_text_def sqlite3_column_int_def seat_key_def Let_def

lemmas example_defs = initializeDatabase_def flight_AA100_def flight_BB200_def
  flight_unnamed_def user_U1_def user_U2_def db_empty_flight_def db_one_booking_def
  db_sold_out_def db_two_flights_def db_unnamed_booking_def flight_OHare_def db_OHare_def db_OHare_sold_out_def

text \<open>Statement text without quote or NUL is the statement meant.\<close>

lemma sql_text_concat: "list_all sql_text fs \<Longrightarrow> sql_text (concat fs)"
  by (induction fs) (auto simp: sql_text_def)

lemma spliced_text_meant: "list_all sql_text fs \<Longrightarrow> spliced_text fs = Some True"
  using sql_text_concat [of fs] by (simp add: spliced_text_def sql_text_def)

lemma spliced_text_True: "spliced_text fs = Some True \<Longrightarrow> list_all sql_text fs"
  by (auto simp: spliced_text_def sql_text_def list_all_iff Let_def split: if_splits)

lemma executeSQL_meant:
  "list_all sql_text (spliced q) \<Longrightarrow> executeSQL q db = sqlite3_exec q db"
  by (simp add: executeSQL_def spliced_text_meant)

lemma executeSQL_SomeD:
  "executeSQL q db = Some (ok, db1) \<Longrightarrow>
   (list_all sql_text (spliced q) \<and> sqlite3_exec q db = Some (ok, db1)) \<or> (\<not> ok \<and> db1 = db)"
  by (auto simp: executeSQL_def split: Option.bind_splits if_splits dest: spliced_text_True)

text \<open>A key column with distinct values picks out one row.\<close>

lemma find_by_key:
  "distinct (map k xs) \<Longrightarrow> r \<in> set xs \<Longrightarrow> find (\<lambda>x. k x = k r) xs = Some r"
  by (induction xs) (auto simp: image_iff)

lemma only_row:
  "distinct (map k xs) \<Longrightarrow> r \<in> set xs \<Longrightarrow> x \<in> set xs \<Longrightarrow> k x = k r \<Longrightarrow> x = r"
  by (simp add: distinct_map inj_on_def)

lemma map_at_key:
  assumes "distinct (map k xs)" "r \<in> set xs"
  shows "map (\<lambda>x. if k x = k r then g x else x) xs = map (\<lambda>x. if x = r then g r else x) xs"
proof (rule map_cong [OF refl])
  fix x assume x: "x \<in> set xs"
  show "(if k x = k r then g x else x) = (if x = r then g r else x)"
  proof (cases "k x = k r")
    case True
    with assms x have "x = r" by (rule only_row)
    then show ?thesis by simp
  next
    case False
    then have "x \<noteq> r" by auto
    with False show ?thesis by simp
  qed
qed

lemma list_all_mapI: "(\<And>x. x \<in> set xs \<Longrightarrow> P (g x)) \<Longrightarrow> list_all P (map g xs)"
  by (induction xs) simp_all

text \<open>The UPDATE statements leave the key columns they do not set as they were.\<close>

lemma map_flightNumber_update [simp]:
  "map Flight.flightNumber (map (\<lambda>r. if P r then r\<lparr>availableTickets := g r\<rparr> else r) xs)
     = map Flight.flightNumber xs"
  by (induction xs) auto

lemma map_flightNumber_modify [simp]:
  "map Flight.flightNumber (map (\<lambda>r. if P r
      then r\<lparr>airlineName := a, startingPoint := s, destination := d,
             totalTickets := t, availableTickets := v\<rparr> else r) xs)
     = map Flight.flightNumber xs"
  by (induction xs) auto

lemma map_userID_update [simp]:
  "map userID (map (\<lambda>r. if P r
      then r\<lparr>name := n, User.flightNumber := f, seatNumber := s\<rparr> else r) xs)
     = map userID xs"
  by (induction xs) auto

lemma seat_key_row [simp]:
  "seat_key \<lparr>userID = u, name = n, User.flightNumber = f, seatNumber = s\<rparr> = (f, s)"
  by (simp add: seat_key_def)

subsection \<open>Every statement keeps the schema's constraints\<close>

text \<open>
  Moving one passenger to a seat that no other passenger holds keeps the seat keys distinct.
  This is the UPDATE of modifyUser; the passenger's own old row is not in the way.
\<close>

lemma seat_keys_moved:
  "distinct (map userID xs) \<Longrightarrow> distinct (map seat_key xs) \<Longrightarrow>
   \<forall>r\<in>set xs. userID r \<noteq> u \<longrightarrow> seat_key r \<noteq> (f, s) \<Longrightarrow>
   distinct (map (\<lambda>r. if userID r = u then (f, s) else seat_key r) xs)"
proof (induction xs)
  case Nil
  then show ?case by simp
next
  case (Cons x xs)
  then have rest: "distinct (map (\<lambda>r. if userID r = u then (f, s) else seat_key r) xs)"
    by simp
  have "(if userID x = u then (f, s) else seat_key x)
          \<notin> (\<lambda>r. if userID r = u then (f, s) else seat_key r) ` set xs"
  proof
    assume "(if userID x = u then (f, s) else seat_key x)
          \<in> (\<lambda>r. if userID r = u then (f, s) else seat_key r) ` set xs"
    then obtain r where r: "r \<in> set xs"
      and eq: "(if userID x = u then (f, s) else seat_key x)
                 = (if userID r = u then (f, s) else seat_key r)"
      by auto
    from r Cons.prems have ids: "userID r \<noteq> userID x" and keys: "seat_key r \<noteq> seat_key x"
      by (auto simp: image_iff)
    from r Cons.prems have r_free: "userID r \<noteq> u \<longrightarrow> seat_key r \<noteq> (f, s)" by simp
    from Cons.prems have x_free: "userID x \<noteq> u \<longrightarrow> seat_key x \<noteq> (f, s)" by simp
    from eq ids keys r_free x_free show False
      by (auto split: if_splits)
  qed
  with rest show ?case by simp
qed

lemma seat_keys_after_update:
  assumes "distinct (map userID xs)" "distinct (map seat_key xs)"
    "\<forall>r\<in>set xs. userID r \<noteq> u \<longrightarrow> seat_key r \<noteq> (f, s)"
  shows "distinct (map seat_key (map (\<lambda>r. if userID r = u
      then r\<lparr>name := n, User.flightNumber := f, seatNumber := s\<rparr> else r) xs))"
proof -
  have eq: "map seat_key (map (\<lambda>r. if userID r = u
      then r\<lparr>name := n, User.flightNumber := f, seatNumber := s\<rparr> else r) xs)
    = map (\<lambda>r. if userID r = u then (f, s) else seat_key r) xs"
    by (simp add: seat_key_def)
  show ?thesis
    unfolding eq by (rule seat_keys_moved [OF assms])
qed

lemma sqlite3_exec_schema:
  "schema_ok db \<Longrightarrow> sqlite3_exec q db = Some (ok, db1) \<Longrightarrow> schema_ok db1"
proof (cases q)
  case (UPDATE_Users n f s u)
  assume inv: "schema_ok db" and ex: "sqlite3_exec q db = Some (ok, db1)"
  let ?upd = "\<lambda>r. if userID r = u
        then r\<lparr>name := n, User.flightNumber := f, seatNumber := s\<rparr> else r"
  show ?thesis
  proof (cases ok)
    case False
    with ex UPDATE_Users have "db1 = db" by (auto split: if_splits)
    with inv show ?thesis by simp
  next
    case True
    with ex UPDATE_Users have db1: "db1 = db\<lparr>Users := map ?upd (Users db)\<rparr>"
      and free: "u \<notin> set (map userID (Users db)) \<or>
         \<not> list_ex (\<lambda>r. userID r \<noteq> u \<and> seat_key r = (f, s)) (Users db)"
      by (auto split: if_splits)
    have ids: "map userID (map ?upd (Users db)) = map userID (Users db)"
      by (rule map_userID_update)
    have keys: "distinct (map seat_key (map ?upd (Users db)))"
    proof (cases "u \<in> set (map userID (Users db))")
      case True
      with free have "\<forall>r\<in>set (Users db). userID r \<noteq> u \<longrightarrow> seat_key r \<noteq> (f, s)"
        by (auto simp: list_ex_iff)
      with inv show ?thesis
        by (intro seat_keys_after_update) (auto simp: schema_ok_def)
    next
      case False
      then have "map ?upd (Users db) = Users db"
        by (auto intro!: map_idI)
      with inv show ?thesis by (simp add: schema_ok_def)
    qed
    from inv have "distinct (map Flight.flightNumber (Flights db))"
      and "distinct (map userID (Users db))"
      by (simp_all add: schema_ok_def)
    with ids keys db1 show ?thesis
      unfolding schema_ok_def by (simp del: map_map)
  qed
next
  case (INSERT_Users u n f s)
  assume "schema_ok db" and "sqlite3_exec q db = Some (ok, db1)"
  with INSERT_Users show ?thesis
    by (auto simp: schema_ok_def split: if_splits)
qed (auto simp: schema_ok_def distinct_map_filter simp del: map_map split: if_splits)

lemma executeSQL_schema:
  "schema_ok db \<Longrightarrow> executeSQL q db = Some (ok, db1) \<Longrightarrow> schema_ok db1"
  by (auto dest!: executeSQL_SomeD dest: sqlite3_exec_schema)

lemma sqlite3_exec_text:
  "text_ok db \<Longrightarrow> list_all sql_text (spliced q) \<Longrightarrow> sqlite3_exec q db = Some (ok, db1)
   \<Longrightarrow> text_ok db1"
  by (cases q) (auto simp: text_ok_def list_all_iff split: if_splits)

lemma executeSQL_text:
  "text_ok db \<Longrightarrow> executeSQL q db = Some (ok, db1) \<Longrightarrow> text_ok db1"
  by (auto dest!: executeSQL_SomeD dest: sqlite3_exec_text)

text \<open>
  An operation changes the database only through \<^verbatim>\<open>executeSQL\<close>, so whatever
  every statement keeps, every operation keeps.
\<close>

lemma run_keeps:
  assumes step: "\<And>q d ok d1. P d \<Longrightarrow> executeSQL q d = Some (ok, d1) \<Longrightarrow> P d1"
    and start: "P db" and run: "run db c = Some (out, db1)"
  shows "P db1"
proof (cases c)
  case (AddFlight f a s d t)
  with run have "addFlight db f a s d t = Some (out, db1)" by simp
  with start show ?thesis
    unfolding addFlight_def
    by (auto split: if_splits Option.bind_splits; metis step)
next
  case (ModifyFlight f a s d t v)
  with run have "modifyFlight db f a s d t v = Some (out, db1)" by simp
  with start show ?thesis
    unfolding modifyFlight_def
    by (auto split: if_splits Option.bind_splits; metis step)
next
  case (DeleteFlight f)
  with run have "deleteFlight db f = Some (out, db1)" by simp
  with start show ?thesis
    unfolding deleteFlight_def
    by (auto split: if_splits Option.bind_splits; metis step)
next
  case (AddUser u n f s)
  with run have "addUser db u n f s = Some (out, db1)" by simp
  with start show ?thesis
    unfolding addUser_def
    by (auto split: if_splits Option.bind_splits; metis step)
next
  case (ModifyUser u n f s)
  with run have "modifyUser db u n f s = Some (out, db1)" by simp
  with start show ?thesis
    unfolding modifyUser_def
    by (auto split: if_splits Option.bind_splits; metis step)
next
  case (DeleteUser u)
  with run have "deleteUser db u = Some (out, db1)" by simp
  with start show ?thesis
    unfolding deleteUser_def
    by (auto split: if_splits Option.bind_splits; metis step)
next
  case (MakeReservation u f n s)
  with run have "makeReservation db u f n s = Some (out, db1)" by simp
  with start show ?thesis
    unfolding makeReservation_def
    by (auto split: if_splits Option.bind_splits; metis step)
next
  case (CancelReservation u)
  with run have "cancelReservation db u = Some (out, db1)" by simp
  with start show ?thesis
    unfolding cancelReservation_def
    by (auto split: if_splits Option.bind_splits; metis step)
qed

lemma run_schema:
  "schema_ok db \<Longrightarrow> run db c = Some (out, db1) \<Longrightarrow> schema_ok db1"
  by (rule run_keeps [where P = schema_ok]) (blast intro: executeSQL_schema)+

lemma run_text:
  "text_ok db \<Longrightarrow> run db c = Some (out, db1) \<Longrightarrow> text_ok db1"
  by (rule run_keeps [where P = text_ok]) (blast intro: executeSQL_text)+

lemma reachable_db_ok: "reachable db \<Longrightarrow> db_ok db"
proof (induction rule: reachable.induct)
  case initial
  show ?case by (simp add: initializeDatabase_def db_ok_def schema_ok_def text_ok_def)
next
  case (step db c out db1)
  then show ?case
    unfolding db_ok_def by (blast intro: run_schema run_text)
qed

lemma reachable_schema: "reachable db \<Longrightarrow> schema_ok db"
  using reachable_db_ok [of db] by (simp add: db_ok_def)

lemma one_row_per_seat:
  "distinct (map seat_key xs) \<Longrightarrow>
   length (filter (\<lambda>r. User.flightNumber r = F \<and> seatNumber r = S) xs) \<le> 1"
proof (induction xs)
  case Nil
  then show ?case by simp
next
  case (Cons x xs)
  show ?case
  proof (cases "User.flightNumber x = F \<and> seatNumber x = S")
    case True
    with Cons.prems have "\<forall>r\<in>set xs. \<not> (User.flightNumber r = F \<and> seatNumber r = S)"
      by (auto simp: seat_key_def image_iff)
    then have "filter (\<lambda>r. User.flightNumber r = F \<and> seatNumber r = S) xs = []"
      by (simp add: filter_empty_conv)
    with True show ?thesis by simp
  next
    case False
    with Cons show ?thesis by auto
  qed
qed

text \<open>The two steps of the worked scenario, used to show that its databases are reachable.\<close>

lemma run_AddFlight_example:
  "run initializeDatabase (AddFlight ''AA100'' ''Delta'' ''Oslo'' ''Rome'' 2)
     = Some ([Flight_added], db_empty_flight)"
  by (simp add: operation_defs example_defs)

lemma run_AddUser_example:
  "run db_empty_flight (AddUser ''U1'' ''Ann'' ''AA100'' 1) = Some ([User_added], db_one_booking)"
  by (simp add: operation_defs example_defs)

lemma reachable_one_booking: "reachable db_one_booking"
  by (rule reachable.step [OF reachable.step [OF reachable.initial run_AddFlight_example]
        run_AddUser_example])

lemma schema_ok_empty_flight: "schema_ok db_empty_flight"
  by (simp add: schema_ok_def example_defs)

subsection \<open>Seat uniqueness\<close>

text \<open>
  A database that meets the schema's uniqueness constraints holds at most one Users row for
  each flight number and seat number, and a statement that is the one meant, or is rejected,
  yields such a database again.
\<close>

lemma schema_one_row_per_seat:
  "schema_ok db \<Longrightarrow>
   length (filter (\<lambda>r. User.flightNumber r = F \<and> seatNumber r = S) (Users db)) \<le> 1"
  unfolding schema_ok_def by (blast intro: one_row_per_seat)

text \<open>What the invariant on stored text gives for a row and for a typed line.\<close>

lemma text_ok_flight:
  "text_ok db \<Longrightarrow> r \<in> set (Flights db) \<Longrightarrow> sql_text (Flight.flightNumber r)"
  by (simp add: text_ok_def list_all_iff)

lemma text_ok_user:
  "text_ok db \<Longrightarrow> r \<in> set (Users db) \<Longrightarrow> sql_text (userID r) \<and> sql_text (User.flightNumber r)"
  by (simp add: text_ok_def list_all_iff)

lemma c_str_cut: "c_str s \<noteq> s \<Longrightarrow> CHR 0x00 \<in> set s"
  by (auto simp: c_str_def)

text \<open>
  A typed line that is not itself a stored key, but whose bytes before a NUL are one: the
  bound lookup finds the key, and every statement spliced from the line is cut short.
\<close>

lemma spliced_text_cut:
  assumes "c_str s \<noteq> s" "sql_text (c_str s)"
  shows "spliced_text [s] = Some False"
proof -
  from assms(1) have "CHR 0x00 \<in> set s" by (rule c_str_cut)
  moreover from assms(2) have "CHR 0x27 \<notin> set (c_str s)" by (simp add: sql_text_def)
  ultimately show ?thesis by (simp add: spliced_text_def)
qed

subsection \<open>addFlight\<close>

text \<open>
  C2 as stated fails: for a flight number with an apostrophe that is not in the table,
  addFlight does not insert; SQLite rejects the INSERT text, the SQL error is printed, the
  table stays empty and flightExists stays false. The same happens for a line with a NUL.
\<close>

theorem addFlight_contract_counterexample:
  "\<not> flightExists initializeDatabase ''O'Hare'' \<and>
   addFlight initializeDatabase ''O'Hare'' ''Delta'' ''Oslo'' ''Rome'' 2
     = Some ([SQL_error], \<lparr>Flights = [], Users = []\<rparr>) \<and>
   \<not> flightExists \<lparr>Flights = [], Users = []\<rparr> ''O'Hare'' \<and>
   \<not> flightExists initializeDatabase (''AA100'' @ [CHR 0x00]) \<and>
   addFlight initializeDatabase (''AA100'' @ [CHR 0x00]) ''Delta'' ''Oslo'' ''Rome'' 2
     = Some ([SQL_error], \<lparr>Flights = [], Users = []\<rparr>)"
  by (simp add: operation_defs example_defs)

text \<open>
  C2, amended. When a flight with the typed number exists, addFlight prints its message
  and leaves the database as it was. Otherwise, when the four typed text fields hold no
  quote and no NUL, it appends the Flights row whose availableTickets equals its
  totalTickets, changes nothing else, and flightExists is true of the number afterwards.
\<close>

theorem addFlight_contract:
  "(flightExists db f \<longrightarrow> addFlight db f a s d t = Some ([Flight_already_exists], db)) \<and>
   (\<not> flightExists db f \<and> sql_text f \<and> sql_text a \<and> sql_text s \<and> sql_text d \<longrightarrow>
      addFlight db f a s d t =
        Some ([Flight_added], db\<lparr>Flights := Flights db @
          [\<lparr>Flight.flightNumber = f, airlineName = a, startingPoint = s, destination = d,
            totalTickets = sint t, availableTickets = sint t\<rparr>]\<rparr>) \<and>
      flightExists (db\<lparr>Flights := Flights db @
          [\<lparr>Flight.flightNumber = f, airlineName = a, startingPoint = s, destination = d,
            totalTickets = sint t, availableTickets = sint t\<rparr>]\<rparr>) f)"
  by (auto simp: addFlight_def flightExists_def executeSQL_meant c_str_sql_text)

text \<open>The theorem at the new file, where AA100 is added, and again once AA100 is there.\<close>

theorem addFlight_contract_witness:
  "addFlight initializeDatabase ''AA100'' ''Delta'' ''Oslo'' ''Rome'' 2 =
     Some ([Flight_added], db_empty_flight) \<and>
   flightExists db_empty_flight ''AA100'' \<and>
   addFlight db_empty_flight ''AA100'' ''KLM'' ''Bonn'' ''Kyiv'' 7 =
     Some ([Flight_already_exists], db_empty_flight)"
  using addFlight_contract [where db = initializeDatabase and f = "''AA100''"
      and a = "''Delta''" and s = "''Oslo''" and d = "''Rome''" and t = 2]
    addFlight_contract [where db = db_empty_flight and f = "''AA100''"
      and a = "''KLM''" and s = "''Bonn''" and d = "''Kyiv''" and t = 7]
  by (simp add: example_defs flightExists_def sql_text_def c_str_def)

subsection \<open>addUser\<close>

text \<open>
  The successful path of addUser, for any counter that the decrement keeps in range: one
  Users row is appended and the counter of every Flights row with that number goes down by
  one (the primary key allows one such row).
\<close>

lemma addUser_inserts:
  assumes "sql_text u" "sql_text n" "sql_text f"
    "\<not> userExists db u" "flightExists db f" "isSeatAvailable db f s"
    "\<not> list_ex (\<lambda>x. Flight.flightNumber x = f \<and> availableTickets x \<le> - (2 ^ 63)) (Flights db)"
  shows "addUser db u n f s =
    Some ([User_added],
      db\<lparr>Users := Users db @
            [\<lparr>userID = u, name = n, User.flightNumber = f, seatNumber = sint s\<rparr>],
         Flights := map (\<lambda>x. if Flight.flightNumber x = f
            then x\<lparr>availableTickets := availableTickets x - 1\<rparr> else x) (Flights db)\<rparr>)"
proof -
  from assms(1,3) have cu: "c_str u = u" and cf: "c_str f = f"
    by (simp_all add: c_str_sql_text)
  from assms(4,6) cu cf have fresh: "u \<notin> set (map userID (Users db))"
    "(f, sint s) \<notin> set (map seat_key (Users db))"
    by (simp_all add: userExists_def isSeatAvailable_def)
  have ins: "executeSQL (INSERT_Users u n f (sint s)) db =
      Some (True, db\<lparr>Users := Users db @
            [\<lparr>userID = u, name = n, User.flightNumber = f, seatNumber = sint s\<rparr>]\<rparr>)"
    using fresh assms(1,2,3) by (simp add: executeSQL_meant)
  have upd: "executeSQL (UPDATE_availableTickets_minus_1 f)
        (db\<lparr>Users := Users db @
            [\<lparr>userID = u, name = n, User.flightNumber = f, seatNumber = sint s\<rparr>]\<rparr>) =
      Some (True, db\<lparr>Users := Users db @
            [\<lparr>userID = u, name = n, User.flightNumber = f, seatNumber = sint s\<rparr>],
         Flights := map (\<lambda>x. if Flight.flightNumber x = f
            then x\<lparr>availableTickets := availableTickets x - 1\<rparr> else x) (Flights db)\<rparr>)"
    using assms(3,7) by (simp add: executeSQL_meant)
  from assms(4,5,6) show ?thesis
    by (simp add: addUser_def ins upd)
qed

text \<open>
  C3 as stated fails: the userID is new, flight AA100 exists with two tickets and seat 1 is
  free, yet addUser for the passenger O'Brien does not succeed; SQLite rejects the INSERT
  text, the SQL error is printed and nothing changes. The same happens for a name with a
  NUL, and for a flight line that is AA100 followed by a NUL and more, which flightExists
  takes for AA100. It also happens on the flight O'Hare, for a passenger with a plain
  userID and name.
\<close>

theorem addUser_contract_counterexample:
  "\<not> userExists db_empty_flight ''U1'' \<and>
   flightExists db_empty_flight ''AA100'' \<and> 0 < availableTickets (flight_AA100 2) \<and>
   isSeatAvailable db_empty_flight ''AA100'' 1 \<and>
   addUser db_empty_flight ''U1'' ''O'Brien'' ''AA100'' 1 = Some ([SQL_error], db_empty_flight) \<and>
   addUser db_empty_flight ''U1'' (''Ann'' @ [CHR 0x00]) ''AA100'' 1
     = Some ([SQL_error], db_empty_flight) \<and>
   flightExists db_empty_flight (''AA100'' @ [CHR 0x00, CHR ''x'']) \<and>
   isSeatAvailable db_empty_flight (''AA100'' @ [CHR 0x00, CHR ''x'']) 1 \<and>
   addUser db_empty_flight ''U1'' ''Ann'' (''AA100'' @ [CHR 0x00, CHR ''x'']) 1
     = Some ([SQL_error], db_empty_flight) \<and>
   \<not> userExists db_OHare ''U2'' \<and> flightExists db_OHare ''O'Hare'' \<and>
   0 < availableTickets flight_OHare \<and> isSeatAvailable db_OHare ''O'Hare'' 2 \<and>
   addUser db_OHare ''U2'' ''Bob'' ''O'Hare'' 2 = Some ([SQL_error], db_OHare)"
  by (simp add: operation_defs example_defs)

text \<open>
  C3, amended. addUser fails, with one of its three messages and the database unchanged,
  when the typed userID exists, or the typed flight is absent, or the typed seat is taken
  on it. For every database and every typed userID, name and flight number that hold no
  quote and no NUL: when the userID is new, the flight exists with availableTickets above
  0 and the seat is free on it, addUser succeeds: it appends exactly the row
  (userID, name, F, S) to Users and takes exactly 1 off the availableTickets of F, every
  other Flights row staying as it was.
\<close>

theorem addUser_contract:
  "(userExists db u \<or> \<not> flightExists db f \<or> \<not> isSeatAvailable db f s \<longrightarrow>
      (\<exists>m. addUser db u n f s = Some ([m], db) \<and>
           m \<in> {User_already_exists, Flight_doesnt_exist, Seat_taken s})) \<and>
   (sql_text u \<and> sql_text n \<and> sql_text f \<and>
    \<not> userExists db u \<and> flightExists db f \<and>
    list_all (\<lambda>r. Flight.flightNumber r = f \<longrightarrow> 0 < availableTickets r) (Flights db) \<and>
    isSeatAvailable db f s \<longrightarrow>
      addUser db u n f s =
        Some ([User_added],
          db\<lparr>Users := Users db @
                [\<lparr>userID = u, name = n, User.flightNumber = f, seatNumber = sint s\<rparr>],
             Flights := map (\<lambda>x. if Flight.flightNumber x = f
                then x\<lparr>availableTickets := availableTickets x - 1\<rparr> else x) (Flights db)\<rparr>))"
proof (intro conjI impI)
  assume "userExists db u \<or> \<not> flightExists db f \<or> \<not> isSeatAvailable db f s"
  then show "\<exists>m. addUser db u n f s = Some ([m], db) \<and>
           m \<in> {User_already_exists, Flight_doesnt_exist, Seat_taken s}"
    by (auto simp: addUser_def)
next
  assume a: "sql_text u \<and> sql_text n \<and> sql_text f \<and>
    \<not> userExists db u \<and> flightExists db f \<and>
    list_all (\<lambda>r. Flight.flightNumber r = f \<longrightarrow> 0 < availableTickets r) (Flights db) \<and>
    isSeatAvailable db f s"
  then have "\<not> list_ex (\<lambda>x. Flight.flightNumber x = f \<and> availableTickets x \<le> - (2 ^ 63))
      (Flights db)"
    by (force simp: list_all_iff list_ex_iff)
  with a show "addUser db u n f s =
        Some ([User_added],
          db\<lparr>Users := Users db @
                [\<lparr>userID = u, name = n, User.flightNumber = f, seatNumber = sint s\<rparr>],
             Flights := map (\<lambda>x. if Flight.flightNumber x = f
                then x\<lparr>availableTickets := availableTickets x - 1\<rparr> else x) (Flights db)\<rparr>)"
    by (intro addUser_inserts) simp_all
qed

text \<open>
  The theorem in the scenario: U1 takes seat 1 of AA100 and the counter goes from 2 to 1;
  U2 asking for the same seat is refused and nothing changes.
\<close>

theorem addUser_contract_witness:
  "\<not> userExists db_empty_flight ''U1'' \<and> flightExists db_empty_flight ''AA100'' \<and>
   0 < availableTickets (flight_AA100 2) \<and> isSeatAvailable db_empty_flight ''AA100'' 1 \<and>
   addUser db_empty_flight ''U1'' ''Ann'' ''AA100'' 1 = Some ([User_added], db_one_booking) \<and>
   \<not> isSeatAvailable db_one_booking ''AA100'' 1 \<and>
   addUser db_one_booking ''U2'' ''Bob'' ''AA100'' 1 = Some ([Seat_taken 1], db_one_booking)"
  using addUser_contract [where db = db_empty_flight and u = "''U1''" and f = "''AA100''"
      and s = 1 and n = "''Ann''"]
    addUser_contract [where db = db_one_booking and u = "''U2''" and f = "''AA100''"
      and s = 1 and n = "''Bob''"]
  by (simp add: operation_defs example_defs)

subsection \<open>Validation failures change nothing\<close>

text \<open>
  C4. Whenever one of the eight operations stops on a validation check, that is, prints
  one of the not-found, already-exists, seat-taken or no-tickets messages, the database
  afterwards is the database before: both tables, every row and every counter.
\<close>

theorem validation_failure_atomic:
  "run db c = Some (out, db1) \<and> list_ex validation_failure out \<longrightarrow> db1 = db"
proof (cases c)
  case (AddFlight f a s d t)
  then show ?thesis
    by (auto simp: addFlight_def split: if_splits Option.bind_splits)
next
  case (ModifyFlight f a s d t v)
  then show ?thesis
    by (auto simp: modifyFlight_def split: if_splits Option.bind_splits)
next
  case (DeleteFlight f)
  then show ?thesis
    by (auto simp: deleteFlight_def split: if_splits Option.bind_splits)
next
  case (AddUser u n f s)
  then show ?thesis
    by (auto simp: addUser_def sql_said_def split: if_splits Option.bind_splits)
next
  case (ModifyUser u n f s)
  then show ?thesis
    by (auto simp: modifyUser_def split: if_splits Option.bind_splits)
next
  case (DeleteUser u)
  then show ?thesis
    by (auto simp: deleteUser_def sql_said_def split: if_splits Option.bind_splits)
next
  case (MakeReservation u f n s)
  then show ?thesis
    by (auto simp: makeReservation_def sql_said_def split: if_splits Option.bind_splits)
next
  case (CancelReservation u)
  then show ?thesis
    by (auto simp: cancelReservation_def sql_said_def split: if_splits Option.bind_splits)
qed

text \<open>
  The theorem at two aborted calls: addUser for a flight that does not exist, and
  makeReservation for a seat that is taken.
\<close>

theorem validation_failure_atomic_witness:
  "run db_one_booking (AddUser ''U2'' ''Bob'' ''ZZ999'' 1)
     = Some ([Flight_doesnt_exist], db_one_booking) \<and>
   list_ex validation_failure [Flight_doesnt_exist] \<and>
   run db_one_booking (MakeReservation ''U2'' ''AA100'' ''Bob'' 1)
     = Some ([Seat_taken 1], db_one_booking) \<and>
   list_ex validation_failure [Seat_taken 1]"
  using validation_failure_atomic [where db = db_one_booking
      and c = "AddUser ''U2'' ''Bob'' ''ZZ999'' 1" and out = "[Flight_doesnt_exist]"
      and ?db1.0 = db_one_booking]
    validation_failure_atomic [where db = db_one_booking
      and c = "MakeReservation ''U2'' ''AA100'' ''Bob'' 1" and out = "[Seat_taken 1]"
      and ?db1.0 = db_one_booking]
  by (simp add: operation_defs example_defs)

subsection \<open>deleteFlight\<close>

text \<open>
  C5 as stated fails: the flight O'Hare exists and has a passenger, yet deleteFlight for it
  deletes nothing; SQLite rejects the DELETE text, the SQL error is printed, and the flight
  and its passenger are still there. The same happens for a line that is AA100 followed by
  a NUL and more, which flightExists takes for the existing AA100.
\<close>

theorem deleteFlight_contract_counterexample:
  "flightExists db_OHare ''O'Hare'' \<and> userExists db_OHare ''U1'' \<and>
   deleteFlight db_OHare ''O'Hare'' = Some ([SQL_error], db_OHare) \<and>
   flightExists db_one_booking (''AA100'' @ [CHR 0x00, CHR ''x'']) \<and>
   deleteFlight db_one_booking (''AA100'' @ [CHR 0x00, CHR ''x''])
     = Some ([SQL_error], db_one_booking)"
  by (simp add: operation_defs example_defs)

text \<open>
  C5, amended. For a typed flight number that does not exist, deleteFlight fails and
  changes nothing. For a typed flight number that exists and holds no quote and no NUL, it
  removes exactly the Users rows that reference it and exactly the Flights rows with that
  number, every other row staying as it was, so that flightExists is false of the number
  afterwards; and, when the userIDs in the table are distinct, as the primary key requires,
  userExists is false afterwards of every userID that named a passenger of that flight.
\<close>

theorem deleteFlight_contract:
  "(\<not> flightExists db f \<longrightarrow> deleteFlight db f = Some ([Flight_not_found], db)) \<and>
   (flightExists db f \<and> sql_text f \<longrightarrow>
      (let db1 = db\<lparr>Users := filter (\<lambda>r. User.flightNumber r \<noteq> f) (Users db),
                     Flights := filter (\<lambda>r. Flight.flightNumber r \<noteq> f) (Flights db)\<rparr>
       in deleteFlight db f = Some ([Flight_deleted], db1) \<and>
          \<not> flightExists db1 f \<and>
          (distinct (map userID (Users db)) \<longrightarrow>
             (\<forall>u. list_ex (\<lambda>r. userID r = c_str u \<and> User.flightNumber r = f) (Users db)
                  \<longrightarrow> \<not> userExists db1 u))))"
proof (intro conjI impI)
  assume "\<not> flightExists db f"
  then show "deleteFlight db f = Some ([Flight_not_found], db)"
    by (simp add: deleteFlight_def)
next
  let ?db1 = "db\<lparr>Users := filter (\<lambda>r. User.flightNumber r \<noteq> f) (Users db),
                   Flights := filter (\<lambda>r. Flight.flightNumber r \<noteq> f) (Flights db)\<rparr>"
  assume a: "flightExists db f \<and> sql_text f"
  then have cf: "c_str f = f" by (simp add: c_str_sql_text)
  from a have run: "deleteFlight db f = Some ([Flight_deleted], ?db1)"
    by (simp add: deleteFlight_def executeSQL_meant)
  from cf have gone: "\<not> flightExists ?db1 f"
    by (force simp: flightExists_def)
  have users: "\<not> userExists ?db1 u"
    if ids: "distinct (map userID (Users db))"
      and booked: "list_ex (\<lambda>r. userID r = c_str u \<and> User.flightNumber r = f) (Users db)" for u
  proof
    assume "userExists ?db1 u"
    then obtain x where x: "x \<in> set (Users db)" "User.flightNumber x \<noteq> f" "userID x = c_str u"
      by (force simp: userExists_def)
    from booked obtain y where y: "y \<in> set (Users db)" "userID y = c_str u" "User.flightNumber y = f"
      by (force simp: list_ex_iff)
    from x y have "userID x = userID y" by simp
    with ids y(1) x(1) have "x = y" by (rule only_row)
    with x y show False by simp
  qed
  from run gone users show "let db1 = ?db1
       in deleteFlight db f = Some ([Flight_deleted], db1) \<and>
          \<not> flightExists db1 f \<and>
          (distinct (map userID (Users db)) \<longrightarrow>
             (\<forall>u. list_ex (\<lambda>r. userID r = c_str u \<and> User.flightNumber r = f) (Users db)
                  \<longrightarrow> \<not> userExists db1 u))"
    unfolding Let_def by (intro conjI impI allI)
qed

text \<open>
  The theorem with two flights and a passenger on each: deleting AA100 removes U1 and
  leaves BB200 and U2; deleting a flight that is not there changes nothing.
\<close>

theorem deleteFlight_contract_witness:
  "flightExists db_two_flights ''AA100'' \<and> distinct (map userID (Users db_two_flights)) \<and>
   deleteFlight db_two_flights ''AA100''
     = Some ([Flight_deleted], \<lparr>Flights = [flight_BB200], Users = [user_U2]\<rparr>) \<and>
   \<not> flightExists \<lparr>Flights = [flight_BB200], Users = [user_U2]\<rparr> ''AA100'' \<and>
   \<not> userExists \<lparr>Flights = [flight_BB200], Users = [user_U2]\<rparr> ''U1'' \<and>
   \<not> flightExists db_two_flights ''ZZ999'' \<and>
   deleteFlight db_two_flights ''ZZ999'' = Some ([Flight_not_found], db_two_flights)"
  using deleteFlight_contract [where db = db_two_flights and f = "''AA100''"]
    deleteFlight_contract [where db = db_two_flights and f = "''ZZ999''"]
  by (simp add: operation_defs example_defs)

subsection \<open>modifyUser\<close>

text \<open>
  For typed text that holds no quote and no NUL, modifyUser succeeds when the user and the
  new flight exist and no other user holds the new seat: it overwrites the name,
  flightNumber and seatNumber of the rows with the typed userID and leaves the Flights table,
  with every availableTickets counter, as it was.
\<close>

lemma modifyUser_plain_text:
  assumes "userExists db u" "flightExists db f" "seatAvailable_for db f s u"
    "sql_text u" "sql_text n" "sql_text f"
  shows "modifyUser db u n f s =
        Some ([User_modified], db\<lparr>Users := map (\<lambda>r. if userID r = u
          then r\<lparr>name := n, User.flightNumber := f, seatNumber := sint s\<rparr> else r) (Users db)\<rparr>)"
proof -
  from assms have "c_str u = u" "c_str f = f" by (simp_all add: c_str_sql_text)
  with assms have "\<not> list_ex (\<lambda>r. userID r \<noteq> u \<and> seat_key r = (f, sint s)) (Users db)"
    by (simp add: seatAvailable_for_def conj_commute)
  with assms show ?thesis
    by (simp add: modifyUser_def executeSQL_meant)
qed

subsection \<open>deleteUser and cancelReservation\<close>

text \<open>
  deleteUser on a line that is not the userID of a row fails and changes nothing.
\<close>

lemma deleteUser_absent:
  assumes "db_ok db" "u \<notin> set (map userID (Users db))"
  shows "deleteUser db u = Some ([User_not_found], db) \<or> deleteUser db u = Some ([SQL_error], db)"
proof (cases "userExists db u")
  case False
  then show ?thesis by (simp add: deleteUser_def)
next
  case True
  then obtain r where r: "r \<in> set (Users db)" "userID r = c_str u"
    by (force simp: userExists_def)
  with assms(2) have cut: "c_str u \<noteq> u" by force
  from assms(1) r have "sql_text (c_str u)"
    using text_ok_user [of db r] by (simp add: db_ok_def)
  with cut have rejected: "spliced_text [u] = Some False" by (rule spliced_text_cut)
  then have "executeSQL (DELETE_Users u) db = Some (False, db)"
    by (simp add: executeSQL_def)
  with True rejected show ?thesis
    by (simp add: deleteUser_def select_flightNumber_def)
qed

text \<open>
  deleteUser on the userID of row r removes that row. The counter of the flight that r
  referenced goes up by one when that flight number is not the empty string; the test
  \<^verbatim>\<open>!flightNumber.empty()\<close> leaves the Flights table alone when it is.
\<close>

lemma deleteUser_effect:
  assumes "db_ok db" "r \<in> set (Users db)" "userID r = u"
    "\<not> list_ex (\<lambda>x. Flight.flightNumber x = User.flightNumber r \<and> 2 ^ 63 - 1 \<le> availableTickets x)
        (Flights db)"
  shows "deleteUser db u =
    Some ([User_deleted],
      db\<lparr>Users := filter (\<lambda>x. userID x \<noteq> u) (Users db),
         Flights := (if User.flightNumber r = [] then Flights db
           else map (\<lambda>x. if Flight.flightNumber x = User.flightNumber r
                  then x\<lparr>availableTickets := availableTickets x + 1\<rparr> else x) (Flights db))\<rparr>)"
proof -
  from assms(1,2,3) have tu: "sql_text u" and tf: "sql_text (User.flightNumber r)"
    using text_ok_user [of db r] by (simp_all add: db_ok_def)
  from tu have cu: "c_str u = u" by (rule c_str_sql_text)
  from assms(2,3) have "u \<in> userID ` set (Users db)" by (blast intro: rev_image_eqI)
  with cu have exists: "userExists db u" by (simp add: userExists_def)
  from assms(1) have "distinct (map userID (Users db))" by (simp add: db_ok_def schema_ok_def)
  from find_by_key [OF this assms(2)] assms(3)
  have "find (\<lambda>x. userID x = u) (Users db) = Some r" by simp
  with tu tf have sel: "select_flightNumber db u = Some (User.flightNumber r)"
    by (simp add: select_flightNumber_def spliced_text_meant c_str_sql_text)
  show ?thesis
  proof (cases "User.flightNumber r = []")
    case True
    with exists sel tu show ?thesis
      by (simp add: deleteUser_def executeSQL_meant)
  next
    case False
    with exists sel tu tf assms(4) show ?thesis
      by (simp add: deleteUser_def executeSQL_meant)
  qed
qed

text \<open>
  The scenario with a named flight: on AA100 with two tickets, U1 takes seat 1 and the
  counter is 1; U2 is refused seat 1; deleting U1 brings the counter back to 2 and frees
  the seat.
\<close>

lemma deleteUser_scenario_AA100:
  "session initializeDatabase
      [AddFlight ''AA100'' ''Delta'' ''Oslo'' ''Rome'' 2, AddUser ''U1'' ''Ann'' ''AA100'' 1]
     = Some db_one_booking \<and>
   addUser db_one_booking ''U2'' ''Bob'' ''AA100'' 1 = Some ([Seat_taken 1], db_one_booking) \<and>
   deleteUser db_one_booking ''U1'' = Some ([User_deleted], db_empty_flight) \<and>
   isSeatAvailable db_empty_flight ''AA100'' 1"
  by (simp add: operation_defs example_defs)

text \<open>
  C7. The claim is that deleteUser, for an existing user, deletes the row and adds 1 to the
  availableTickets of the flight the user referenced. The same scenario on a flight whose
  number is the empty line: addFlight stores the flight with 2 tickets, addUser books U1 on
  it and the counter is 1, and deleteUser removes U1 but leaves the counter at 1, not 2.
\<close>

theorem deleteUser_unnamed_flight:
  "session initializeDatabase
      [AddFlight [] ''Delta'' ''Oslo'' ''Rome'' 2, AddUser ''U1'' ''Ann'' [] 1]
     = Some db_unnamed_booking \<and>
   map availableTickets (Flights db_unnamed_booking) = [1] \<and>
   deleteUser db_unnamed_booking ''U1''
     = Some ([User_deleted], \<lparr>Flights = [flight_unnamed 1], Users = []\<rparr>)"
  by (simp add: operation_defs example_defs)

text \<open>
  C8. cancelReservation and deleteUser are the same function of the userID and the
  database, up to the wording of the line printed on success: they end in the same
  database, stop or go on under the same conditions, and print the same lines except that
  one says "Reservation canceled" where the other says "User deleted".
\<close>

theorem cancelReservation_is_deleteUser:
  "map_option snd (cancelReservation db u) = map_option snd (deleteUser db u) \<and>
   cancelReservation db u =
     map_option (\<lambda>(out, db1). (map (\<lambda>m. if m = User_deleted then Reservation_canceled else m) out, db1))
       (deleteUser db u)"
proof -
  have eq: "cancelReservation db u =
     map_option (\<lambda>(out, db1). (map (\<lambda>m. if m = User_deleted then Reservation_canceled else m) out, db1))
       (deleteUser db u)"
    by (simp add: cancelReservation_def deleteUser_def sql_said_def
          split: Option.bind_split prod.split)
  then have "map_option snd (cancelReservation db u) = map_option snd (deleteUser db u)"
    by (simp add: option.map_comp comp_def case_prod_unfold)
  with eq show ?thesis by simp
qed

text \<open>The theorem at the booking of U1, and at a userID that is not there.\<close>

theorem cancelReservation_is_deleteUser_witness:
  "cancelReservation db_one_booking ''U1'' = Some ([Reservation_canceled], db_empty_flight) \<and>
   deleteUser db_one_booking ''U1'' = Some ([User_deleted], db_empty_flight) \<and>
   cancelReservation db_one_booking ''U9'' = Some ([User_not_found], db_one_booking) \<and>
   deleteUser db_one_booking ''U9'' = Some ([User_not_found], db_one_booking)"
  using cancelReservation_is_deleteUser [where db = db_one_booking and u = "''U1''"]
    cancelReservation_is_deleteUser [where db = db_one_booking and u = "''U9''"]
  by (simp add: operation_defs example_defs)

subsection \<open>makeReservation\<close>

lemma select_availableTickets_plain_text:
  assumes "sql_text f"
  shows "select_availableTickets db f =
     Some (case find (\<lambda>r. Flight.flightNumber r = f) (Flights db) of
             None \<Rightarrow> - 1 | Some r \<Rightarrow> sqlite3_column_int (availableTickets r))"
  using assms by (simp add: select_availableTickets_def spliced_text_meant)


lemma find_flight_present:
  assumes "sql_text f" "flightExists db f"
  obtains r where "find (\<lambda>r. Flight.flightNumber r = f) (Flights db) = Some r"
    "r \<in> set (Flights db)" "Flight.flightNumber r = f"
proof -
  from assms have "\<exists>x\<in>set (Flights db). Flight.flightNumber x = f"
    by (force simp: flightExists_def c_str_sql_text)
  then have "find (\<lambda>r. Flight.flightNumber r = f) (Flights db) \<noteq> None"
    by (auto simp: find_None_iff)
  then obtain r where r: "find (\<lambda>r. Flight.flightNumber r = f) (Flights db) = Some r"
    by auto
  then have "r \<in> set (Flights db)" "Flight.flightNumber r = f"
    by (auto simp: find_Some_iff in_set_conv_nth)
  with r show ?thesis by (rule that)
qed




text \<open>
  makeReservation reads availableTickets into an int that starts at -1 and takes -1 to mean
  that the flight has no row. For a typed flight number that holds no quote and no NUL, and
  whose row holds the counter -1, it prints "Flight not found." and changes nothing, which
  is what it does for a flight with no row.
\<close>

lemma makeReservation_minus_one:
  assumes "sql_text f" "\<not> userExists db u" "flightExists db f"
    "list_all (\<lambda>r. Flight.flightNumber r = f \<longrightarrow> availableTickets r = - 1) (Flights db)"
  shows "makeReservation db u f n s = Some ([Flight_not_found_res], db)"
proof -
  from assms(1,3) obtain r where r: "find (\<lambda>r. Flight.flightNumber r = f) (Flights db) = Some r"
    "r \<in> set (Flights db)" "Flight.flightNumber r = f"
    by (blast elim: find_flight_present)
  with assms(4) have "availableTickets r = - 1" by (simp add: list_all_iff)
  with assms(1,2) r show ?thesis
    by (simp add: makeReservation_def select_availableTickets_plain_text sqlite3_column_int_def)
qed

end
